theory Spec2Isabelle
  imports Main "HOL-Library.AList"
begin

section \<open>The replicated memory cache of \<^verbatim>\<open>main.go\<close>\<close>

text \<open>
  The program keeps one \<^verbatim>\<open>Cache\<close>: a \<^verbatim>\<open>sync.Map\<close> from string keys to string values
  and a fixed list of peer addresses. \<^verbatim>\<open>Add\<close> and \<^verbatim>\<open>Delete\<close> change the map and then
  start one goroutine per peer that sends an HTTP request to that peer.

  The embedding passes the cache explicitly. Besides the two data fields of the Go
  struct the record carries \<open>effects\<close>, the list of effects the methods have performed so
  far, in program order: writes to the map and \<^verbatim>\<open>go\<close> statements. The mutex \<open>mu\<close> only
  serialises \<^verbatim>\<open>Add\<close> and \<^verbatim>\<open>Delete\<close> against each other; the embedding runs one call
  after the other, so the mutex is always free on entry and is not represented. Calls of
  \<^verbatim>\<open>log.Printf\<close> in the methods of \<^verbatim>\<open>Cache\<close> and in the handlers are left out; the log
  lines written by the replication goroutines are kept, since they are the only place
  where the outcome of a delivery shows.
\<close>

subsection \<open>Data\<close>

text \<open>
  A goroutine started by \<^verbatim>\<open>replicateData\<close> or \<^verbatim>\<open>replicateDelete\<close>. The closure takes
  \<open>peerAddr\<close> as its argument and captures \<open>key\<close> (and \<open>value\<close>).
\<close>

datatype task =
    PostReplicate string string string
  | DeleteReplicate string string

datatype effect =
    Stored string string
  | Removed string
  | Go task

record cache =
  data :: "string \<rightharpoonup> string"
  peers :: "string list"
  effects :: "effect list"

subsection \<open>The methods of \<^verbatim>\<open>Cache\<close>\<close>

definition data_Store :: "string \<Rightarrow> string \<Rightarrow> cache \<Rightarrow> cache" where
  "data_Store key val c =
     c\<lparr>data := (data c)(key \<mapsto> val), effects := effects c @ [Stored key val]\<rparr>"

definition data_Delete :: "string \<Rightarrow> cache \<Rightarrow> cache" where
  "data_Delete key c =
     c\<lparr>data := (data c)(key := None), effects := effects c @ [Removed key]\<rparr>"

definition go :: "task \<Rightarrow> cache \<Rightarrow> cache" where
  "go t c = c\<lparr>effects := effects c @ [Go t]\<rparr>"

text \<open>The two loops \<^verbatim>\<open>for _, peer := range c.peers { go func(peerAddr string) {...}(peer) }\<close>.\<close>

fun spawn_each :: "(string \<Rightarrow> task) \<Rightarrow> string list \<Rightarrow> cache \<Rightarrow> cache" where
  "spawn_each closure [] c = c"
| "spawn_each closure (p # rest) c = spawn_each closure rest (go (closure p) c)"

definition replicateData :: "string \<Rightarrow> string \<Rightarrow> string \<Rightarrow> cache \<Rightarrow> cache" where
  "replicateData server key val c =
     spawn_each (\<lambda>peerAddr. PostReplicate peerAddr key val) (peers c) c"

definition replicateDelete :: "string \<Rightarrow> string \<Rightarrow> cache \<Rightarrow> cache" where
  "replicateDelete server key c =
     spawn_each (\<lambda>peerAddr. DeleteReplicate peerAddr key) (peers c) c"

definition Add :: "string \<Rightarrow> string \<Rightarrow> string \<Rightarrow> cache \<Rightarrow> cache" where
  "Add server key val c = replicateData server key val (data_Store key val c)"

text \<open>
  \<^verbatim>\<open>Get\<close> has a pointer receiver like the other methods; it returns the cache next to
  its result so that what it leaves alone can be stated.
\<close>

definition Get :: "string \<Rightarrow> string \<Rightarrow> cache \<Rightarrow> (string \<times> bool) \<times> cache" where
  "Get server key c =
     (case data c key of
        None \<Rightarrow> (([], False), c)
      | Some val \<Rightarrow> ((val, True), c))"

definition Delete :: "string \<Rightarrow> string \<Rightarrow> cache \<Rightarrow> cache" where
  "Delete server key c = replicateDelete server key (data_Delete key c)"

subsection \<open>The replication goroutines\<close>

text \<open>
  What a replication goroutine sends. The URL it uses is the peer address followed by
  \<open>target\<close>; the two parts are kept apart because the receiving server dispatches on
  the second.
\<close>

record request =
  meth :: string
  peer :: string
  target :: string
  content_type :: string
  body :: string

definition url :: "request \<Rightarrow> string" where
  "url r = peer r @ target r"

definition post_request :: "string \<Rightarrow> string \<Rightarrow> string \<Rightarrow> request" where
  "post_request peerAddr key val =
     \<lparr>meth = ''POST'', peer = peerAddr, target = ''/replicate'',
      content_type = ''application/json'', body = key @ ''='' @ val\<rparr>"

definition delete_request :: "string \<Rightarrow> string \<Rightarrow> request" where
  "delete_request peerAddr key =
     \<lparr>meth = ''DELETE'', peer = peerAddr, target = ''/replicate/'' @ key,
      content_type = [], body = []\<rparr>"

fun task_request :: "task \<Rightarrow> request" where
  "task_request (PostReplicate peerAddr key val) = post_request peerAddr key val"
| "task_request (DeleteReplicate peerAddr key) = delete_request peerAddr key"

text \<open>
  The network is a parameter. \<open>url_ok\<close> says whether \<^verbatim>\<open>http.NewRequest\<close> accepts the
  URL; \<open>round_trip\<close> says how the exchange with the peer ends. The client has no
  timeout, so an exchange may also never end. A response with any status code, 400 and
  404 included, is not an error for \<^verbatim>\<open>http.Post\<close> and \<^verbatim>\<open>Client.Do\<close>.
\<close>

datatype exchange = Responds | Fails | Hangs

record network =
  url_ok :: "string \<Rightarrow> bool"
  round_trip :: "request \<Rightarrow> exchange"

datatype log_line =
    ErrorReplicatingData string
  | ReplicatedData string
  | ErrorCreatingDeleteRequest string
  | ErrorReplicatingDelete string
  | ReplicatedDelete string

text \<open>
  The body of a goroutine: the line it logs, or \<open>None\<close> when the exchange never ends
  and the goroutine stays in the HTTP call.
\<close>

fun run_task :: "network \<Rightarrow> task \<Rightarrow> log_line option" where
  "run_task net (PostReplicate peerAddr key val) =
     (if \<not> url_ok net (url (post_request peerAddr key val))
      then Some (ErrorReplicatingData peerAddr)
      else case round_trip net (post_request peerAddr key val) of
             Fails \<Rightarrow> Some (ErrorReplicatingData peerAddr)
           | Responds \<Rightarrow> Some (ReplicatedData peerAddr)
           | Hangs \<Rightarrow> None)"
| "run_task net (DeleteReplicate peerAddr key) =
     (if \<not> url_ok net (url (delete_request peerAddr key))
      then Some (ErrorCreatingDeleteRequest peerAddr)
      else case round_trip net (delete_request peerAddr key) of
             Fails \<Rightarrow> Some (ErrorReplicatingDelete peerAddr)
           | Responds \<Rightarrow> Some (ReplicatedDelete peerAddr)
           | Hangs \<Rightarrow> None)"

text \<open>The goroutines a cache has started, and how each of them ends on a network.\<close>

fun started :: "effect list \<Rightarrow> task list" where
  "started [] = []"
| "started (Go t # es) = t # started es"
| "started (e # es) = started es"

definition outcomes :: "network \<Rightarrow> cache \<Rightarrow> log_line option list" where
  "outcomes net c = map (run_task net) (started (effects c))"

subsection \<open>Decoding the body of \<^verbatim>\<open>/replicate\<close>\<close>

text \<open>
  The handler calls \<^verbatim>\<open>json.NewDecoder(r.Body).Decode(&data)\<close> with \<open>data\<close> of type
  \<^verbatim>\<open>map[string]string\<close>. The decoder belongs to Go's library; \<open>json_decode\<close> describes
  what that call yields, one byte at a time like the library's scanner:
  \<^item> the decoder reads the first JSON value of the body and does not look at what
    follows it;
  \<^item> \<^verbatim>\<open>null\<close> leaves the map \<^verbatim>\<open>nil\<close>, which the handler's loop treats as empty;
  \<^item> an object whose member values are strings or \<^verbatim>\<open>null\<close> gives the map of its
    members, a later member replacing an earlier one of the same key, \<^verbatim>\<open>null\<close> giving
    the empty string;
  \<^item> everything else is an error (\<open>Malformed\<close>): a body that is not JSON, an empty
    body, a top-level value or a member value of another kind.
  Strings with a \<^verbatim>\<open>\u\<close> escape or a byte above 127 need the library's UTF-8 handling;
  on them the description answers \<open>NotModelled\<close> and says nothing.
\<close>

datatype decode_result =
    Decoded "(string \<times> string) list"
  | Malformed
  | NotModelled

datatype scan_phase =
    BeginValue
  | TopLiteral string
  | BeginKeyOrEnd
  | BeginKey
  | InKey
  | InKeyEsc
  | EndKey
  | BeginMember
  | InString
  | InStringEsc
  | MemberLiteral string
  | EndMember

definition isSpace :: "char \<Rightarrow> bool" where
  "isSpace c = (c = CHR '' '' \<or> c = CHR 0x09 \<or> c = CHR 0x0D \<or> c = CHR 0x0A)"

definition unescape :: "char \<Rightarrow> char option" where
  "unescape c =
     (if c = CHR 0x22 then Some (CHR 0x22)
      else if c = CHR 0x5C then Some (CHR 0x5C)
      else if c = CHR ''/'' then Some (CHR ''/'')
      else if c = CHR ''b'' then Some (CHR 0x08)
      else if c = CHR ''f'' then Some (CHR 0x0C)
      else if c = CHR ''n'' then Some (CHR 0x0A)
      else if c = CHR ''r'' then Some (CHR 0x0D)
      else if c = CHR ''t'' then Some (CHR 0x09)
      else None)"

text \<open>
  \<open>scan ph k b m input\<close>: \<open>ph\<close> is the scanner's position in the grammar, \<open>k\<close> the key
  and \<open>b\<close> the string value read so far, \<open>m\<close> the members already stored.
\<close>

fun scan :: "scan_phase \<Rightarrow> string \<Rightarrow> string \<Rightarrow> (string \<times> string) list \<Rightarrow> string
    \<Rightarrow> decode_result" where
  "scan ph k b m [] = Malformed"
| "scan BeginValue k b m (c # cs) =
     (if isSpace c then scan BeginValue k b m cs
      else if c = CHR ''{'' then scan BeginKeyOrEnd [] [] [] cs
      else if c = CHR ''n'' then scan (TopLiteral ''ull'') k b m cs
      else Malformed)"
| "scan (TopLiteral lit) k b m (c # cs) =
     (case lit of
        [] \<Rightarrow> Malformed
      | x # xs \<Rightarrow>
          if c \<noteq> x then Malformed
          else if xs = [] then Decoded []
          else scan (TopLiteral xs) k b m cs)"
| "scan BeginKeyOrEnd k b m (c # cs) =
     (if isSpace c then scan BeginKeyOrEnd k b m cs
      else if c = CHR ''}'' then Decoded m
      else if c = CHR 0x22 then scan InKey [] [] m cs
      else Malformed)"
| "scan BeginKey k b m (c # cs) =
     (if isSpace c then scan BeginKey k b m cs
      else if c = CHR 0x22 then scan InKey [] [] m cs
      else Malformed)"
| "scan InKey k b m (c # cs) =
     (if c = CHR 0x22 then scan EndKey k b m cs
      else if c = CHR 0x5C then scan InKeyEsc k b m cs
      else if (of_char c :: nat) < 0x20 then Malformed
      else if (of_char c :: nat) \<ge> 0x80 then NotModelled
      else scan InKey (k @ [c]) b m cs)"
| "scan InKeyEsc k b m (c # cs) =
     (case unescape c of
        Some d \<Rightarrow> scan InKey (k @ [d]) b m cs
      | None \<Rightarrow> if c = CHR ''u'' then NotModelled else Malformed)"
| "scan EndKey k b m (c # cs) =
     (if isSpace c then scan EndKey k b m cs
      else if c = CHR '':'' then scan BeginMember k [] m cs
      else Malformed)"
| "scan BeginMember k b m (c # cs) =
     (if isSpace c then scan BeginMember k b m cs
      else if c = CHR 0x22 then scan InString k [] m cs
      else if c = CHR ''n'' then scan (MemberLiteral ''ull'') k [] m cs
      else Malformed)"
| "scan InString k b m (c # cs) =
     (if c = CHR 0x22 then scan EndMember [] [] (AList.update k b m) cs
      else if c = CHR 0x5C then scan InStringEsc k b m cs
      else if (of_char c :: nat) < 0x20 then Malformed
      else if (of_char c :: nat) \<ge> 0x80 then NotModelled
      else scan InString k (b @ [c]) m cs)"
| "scan InStringEsc k b m (c # cs) =
     (case unescape c of
        Some d \<Rightarrow> scan InString k (b @ [d]) m cs
      | None \<Rightarrow> if c = CHR ''u'' then NotModelled else Malformed)"
| "scan (MemberLiteral lit) k b m (c # cs) =
     (case lit of
        [] \<Rightarrow> Malformed
      | x # xs \<Rightarrow>
          if c \<noteq> x then Malformed
          else if xs = [] then scan EndMember [] [] (AList.update k [] m) cs
          else scan (MemberLiteral xs) k b m cs)"
| "scan EndMember k b m (c # cs) =
     (if isSpace c then scan EndMember k b m cs
      else if c = CHR '','' then scan BeginKey [] [] m cs
      else if c = CHR ''}'' then Decoded m
      else Malformed)"

definition json_decode :: "string \<Rightarrow> decode_result" where
  "json_decode b = scan BeginValue [] [] [] b"

subsection \<open>The handlers and the server\<close>

text \<open>
  \<^verbatim>\<open>getDataFromCache\<close> walks the map with \<^verbatim>\<open>Range\<close>, whose order is not specified;
  \<open>order\<close> is the list of keys in the order of the walk.
\<close>

definition getDataFromCache :: "string \<Rightarrow> string list \<Rightarrow> cache \<Rightarrow> string" where
  "getDataFromCache server order c =
     concat (map (\<lambda>key. case data c key of
                          None \<Rightarrow> []
                        | Some val \<Rightarrow> key @ ''='' @ val @ [CHR 0x0A]) order)"

datatype reply_body =
    NoBody
  | ErrorText string
  | JsonObject "(string \<times> string) list"
  | Text string

text \<open>
  The handlers of \<^verbatim>\<open>main\<close>, each on the values it takes from the request:
  \<open>key\<close> and \<open>val\<close> are \<^verbatim>\<open>r.URL.Query().Get("key")\<close> and \<^verbatim>\<open>...Get("value")\<close>, the
  empty string when the parameter is missing; \<open>host\<close> is \<^verbatim>\<open>r.Host\<close>. A handler returns
  the status code, the body and the cache.
\<close>

definition add_handler :: "string \<Rightarrow> string \<Rightarrow> cache \<Rightarrow> (nat \<times> reply_body) \<times> cache" where
  "add_handler key val c =
     (if key = [] \<or> val = [] then ((400, ErrorText ''key and value are required''), c)
      else ((200, NoBody), Add ''http://localhost:8080'' key val c))"

definition get_handler :: "string \<Rightarrow> cache \<Rightarrow> (nat \<times> reply_body) \<times> cache" where
  "get_handler key c =
     (if key = [] then ((400, ErrorText ''key is required''), c)
      else case Get ''http://localhost:8080'' key c of
             ((val, ok), c') \<Rightarrow>
               if \<not> ok then ((404, ErrorText ''key not found''), c')
               else ((200, JsonObject [(key, val)]), c'))"

definition delete_handler :: "string \<Rightarrow> cache \<Rightarrow> (nat \<times> reply_body) \<times> cache" where
  "delete_handler key c =
     (if key = [] then ((400, ErrorText ''key is required''), c)
      else ((200, NoBody), Delete ''http://localhost:8080'' key c))"

text \<open>
  The loop \<^verbatim>\<open>for key, value := range data { cache.Add(r.Host, key, value) }\<close>. Go
  visits the entries of a map in an order it does not specify; the members are taken
  here in the order in which the body first names them.
\<close>

fun add_each :: "string \<Rightarrow> (string \<times> string) list \<Rightarrow> cache \<Rightarrow> cache" where
  "add_each host [] c = c"
| "add_each host ((key, val) # rest) c = add_each host rest (Add host key val c)"

text \<open>The result is \<open>None\<close> where the decoder is not described.\<close>

definition replicate_handler :: "string \<Rightarrow> string \<Rightarrow> cache
    \<Rightarrow> ((nat \<times> reply_body) \<times> cache) option" where
  "replicate_handler host b c =
     (case json_decode b of
        Malformed \<Rightarrow> Some ((400, ErrorText ''invalid request body''), c)
      | Decoded members \<Rightarrow> Some ((200, NoBody), add_each host members c)
      | NotModelled \<Rightarrow> None)"

definition getCacheContent_handler :: "string \<Rightarrow> string list \<Rightarrow> cache
    \<Rightarrow> (nat \<times> reply_body) \<times> cache" where
  "getCacheContent_handler host order c = ((200, Text (getDataFromCache host order c)), c)"

text \<open>
  The patterns that \<^verbatim>\<open>main\<close> registers with \<^verbatim>\<open>http.HandleFunc\<close>. None of them ends in
  a slash, so each matches the request path equal to it and no other. No handler looks
  at the method or at the content type.
\<close>

datatype route =
    AddRoute
  | GetRoute
  | DeleteRoute
  | ReplicateRoute
  | GetCacheContentRoute
  | UpdatesRoute

definition routes :: "(string \<times> route) list" where
  "routes =
     [(''/add'', AddRoute),
      (''/get'', GetRoute),
      (''/delete'', DeleteRoute),
      (''/replicate'', ReplicateRoute),
      (''/getCacheContent'', GetCacheContentRoute),
      (''/updates'', UpdatesRoute)]"

text \<open>
  The target of a request is read by the library on both sides: the client parses the
  URL it is given, the server the request line. The description covers the targets made
  of letters, digits and the characters \<^verbatim>\<open>- . _ ~ / ? = &\<close>. On these nothing is escaped
  or decoded: the path is the part before the first question mark and the query the
  part after it. A target with any other character (a percent escape, a fragment, a
  plus sign, a space) is not covered.
\<close>

definition plain :: "char \<Rightarrow> bool" where
  "plain c =
     (c \<in> set (''abcdefghijklmnopqrstuvwxyz'' @ ''ABCDEFGHIJKLMNOPQRSTUVWXYZ''
                @ ''0123456789'' @ ''-._~/?=&''))"

definition covered :: "string \<Rightarrow> bool" where
  "covered t = list_all plain t"

definition request_path :: "string \<Rightarrow> string" where
  "request_path t = takeWhile (\<lambda>c. c \<noteq> CHR ''?'') t"

definition raw_query :: "string \<Rightarrow> string" where
  "raw_query t = drop 1 (dropWhile (\<lambda>c. c \<noteq> CHR ''?'') t)"

fun split_on :: "char \<Rightarrow> string \<Rightarrow> string list" where
  "split_on sep [] = [[]]"
| "split_on sep (c # cs) =
     (if c = sep then [] # split_on sep cs
      else case split_on sep cs of
             [] \<Rightarrow> [[c]]
           | w # ws \<Rightarrow> (c # w) # ws)"

text \<open>
  \<^verbatim>\<open>r.URL.Query().Get(name)\<close>: the query is cut at each \<^verbatim>\<open>&\<close>, empty pieces are
  skipped, each piece is cut at its first \<^verbatim>\<open>=\<close>, and the value of the first piece named
  \<open>name\<close> is returned, the empty string when there is none.
\<close>

definition query_get :: "string \<Rightarrow> string \<Rightarrow> string" where
  "query_get q name =
     (case filter (\<lambda>piece. piece \<noteq> [] \<and> takeWhile (\<lambda>c. c \<noteq> CHR ''='') piece = name)
             (split_on (CHR ''&'') q) of
        [] \<Rightarrow> []
      | piece # _ \<Rightarrow> drop 1 (dropWhile (\<lambda>c. c \<noteq> CHR ''='') piece))"

text \<open>
  \<^verbatim>\<open>ServeMux\<close> puts the path in canonical form before it looks for a pattern: empty
  segments and \<^verbatim>\<open>.\<close> segments are dropped, a \<^verbatim>\<open>..\<close> segment takes the segment before it
  away (at the root it is dropped), and a final slash is kept. \<open>clean_segments\<close> holds
  the segments kept so far, the last one first.
\<close>

fun clean_segments :: "string list \<Rightarrow> string list \<Rightarrow> string list" where
  "clean_segments kept [] = rev kept"
| "clean_segments kept (seg # segs) =
     (if seg = [] \<or> seg = ''.'' then clean_segments kept segs
      else if seg = ''..'' then clean_segments (drop 1 kept) segs
      else clean_segments (seg # kept) segs)"

fun join_segments :: "string list \<Rightarrow> string" where
  "join_segments [] = []"
| "join_segments [seg] = seg"
| "join_segments (seg # segs) = seg @ ''/'' @ join_segments segs"

definition path_Clean :: "string \<Rightarrow> string" where
  "path_Clean p = ''/'' @ join_segments (clean_segments [] (split_on (CHR ''/'') p))"

definition cleanPath :: "string \<Rightarrow> string" where
  "cleanPath p =
     (if p = [] then ''/''
      else let p' = (if hd p \<noteq> CHR ''/'' then CHR ''/'' # p else p);
               np = path_Clean p'
           in if last p' = CHR ''/'' \<and> np \<noteq> ''/'' then np @ ''/'' else np)"

text \<open>
  When the canonical form differs from the path the multiplexer does not run a handler
  but redirects to the canonical form; otherwise it looks for the pattern equal to the
  path.
\<close>

datatype mux_result =
    Handler route
  | RedirectTo string
  | NotFound

definition mux_handler :: "string \<Rightarrow> mux_result" where
  "mux_handler path =
     (if cleanPath path \<noteq> path then RedirectTo (cleanPath path)
      else case map_of routes path of
             None \<Rightarrow> NotFound
           | Some h \<Rightarrow> Handler h)"

text \<open>
  What the server does with one request. \<open>order\<close> is the order of \<^verbatim>\<open>Range\<close>; \<^verbatim>\<open>r.Host\<close>
  is given by the address the client used. A redirect is answered with status 301 and
  the canonical path, followed by the query when there is one, as its location; the
  cache is not touched. \<^verbatim>\<open>/updates\<close> does not reply once but streams; it is the
  transition system of the next subsection.
\<close>

datatype served =
    Replied nat reply_body cache
  | MovedPermanently string
  | Streaming
  | NotCovered

definition replied :: "(nat \<times> reply_body) \<times> cache \<Rightarrow> served" where
  "replied x = (case x of ((code, b), c) \<Rightarrow> Replied code b c)"

definition serve :: "string list \<Rightarrow> request \<Rightarrow> cache \<Rightarrow> served" where
  "serve order r c =
     (if \<not> covered (target r) then NotCovered
      else case mux_handler (request_path (target r)) of
        NotFound \<Rightarrow> Replied 404 (ErrorText ''404 page not found'') c
      | RedirectTo path \<Rightarrow>
          MovedPermanently
            (if raw_query (target r) = [] then path else path @ ''?'' @ raw_query (target r))
      | Handler AddRoute \<Rightarrow>
          replied (add_handler (query_get (raw_query (target r)) ''key'')
                     (query_get (raw_query (target r)) ''value'') c)
      | Handler GetRoute \<Rightarrow> replied (get_handler (query_get (raw_query (target r)) ''key'') c)
      | Handler DeleteRoute \<Rightarrow>
          replied (delete_handler (query_get (raw_query (target r)) ''key'') c)
      | Handler ReplicateRoute \<Rightarrow>
          (case replicate_handler (peer r) (body r) c of
             None \<Rightarrow> NotCovered
           | Some x \<Rightarrow> replied x)
      | Handler GetCacheContentRoute \<Rightarrow> replied (getCacheContent_handler (peer r) order c)
      | Handler UpdatesRoute \<Rightarrow> Streaming)"


subsection \<open>The update feed\<close>

text \<open>
  The handler of \<^verbatim>\<open>/updates\<close> makes an unbuffered channel and starts a goroutine, the
  producer, that loops for ever: take the content of the cache, send it on the channel,
  sleep one second. The handler itself loops over a \<^verbatim>\<open>select\<close> with two cases: receive
  from the channel and write the frame, or return when the request's context is done.

  A subscription is the state of the two: where the producer stands, where the handler
  stands, whether the context is done, and the frames written. \<open>ProducerReturned\<close> is
  the state of a goroutine whose function has returned.
\<close>

datatype producer_pc =
    AtSnapshot
  | AtSend string
  | AtSleep
  | ProducerReturned

datatype handler_pc =
    AtSelect
  | HandlerReturned

record subscription =
  cache_of :: cache
  producer :: producer_pc
  handler :: handler_pc
  ctx_done :: bool
  written :: "string list"

text \<open>
  The steps. \<open>Snapshot\<close>: the producer calls \<^verbatim>\<open>getDataFromCache\<close>. \<open>Rendezvous\<close>: the
  send meets the receiving case of the \<^verbatim>\<open>select\<close>; the handler writes the frame and is
  back at the \<^verbatim>\<open>select\<close>. \<open>Wake\<close>: the sleep is over. \<open>Cancel\<close>: the subscriber's context
  is cancelled. \<open>Return\<close>: the \<^verbatim>\<open>select\<close> takes the case of the done context. A step that
  is not enabled gives \<open>None\<close>. The loop of the producer has no \<^verbatim>\<open>break\<close> and no
  \<^verbatim>\<open>return\<close>, and the channel is never closed, so no step leads to \<open>ProducerReturned\<close>.
\<close>

datatype action = Snapshot | Rendezvous | Wake | Cancel | Return

fun sse_step :: "string \<Rightarrow> string list \<Rightarrow> action \<Rightarrow> subscription \<Rightarrow> subscription option" where
  "sse_step host order Snapshot s =
     (if producer s = AtSnapshot
      then Some (s\<lparr>producer := AtSend (getDataFromCache host order (cache_of s))\<rparr>)
      else None)"
| "sse_step host order Rendezvous s =
     (case producer s of
        AtSend update \<Rightarrow>
          if handler s = AtSelect
          then Some (s\<lparr>producer := AtSleep,
                       written := written s @ [''data: '' @ update @ [CHR 0x0A, CHR 0x0A]]\<rparr>)
          else None
      | _ \<Rightarrow> None)"
| "sse_step host order Wake s =
     (if producer s = AtSleep then Some (s\<lparr>producer := AtSnapshot\<rparr>) else None)"
| "sse_step host order Cancel s =
     (if ctx_done s then None else Some (s\<lparr>ctx_done := True\<rparr>))"
| "sse_step host order Return s =
     (if handler s = AtSelect \<and> ctx_done s then Some (s\<lparr>handler := HandlerReturned\<rparr>)
      else None)"

fun sse_run :: "string \<Rightarrow> string list \<Rightarrow> action list \<Rightarrow> subscription \<Rightarrow> subscription option" where
  "sse_run host order [] s = Some s"
| "sse_run host order (a # as) s =
     (case sse_step host order a s of
        None \<Rightarrow> None
      | Some s' \<Rightarrow> sse_run host order as s')"

text \<open>The state in which the handler of \<^verbatim>\<open>/updates\<close> has just started the producer.\<close>

definition subscribe :: "cache \<Rightarrow> subscription" where
  "subscribe c =
     \<lparr>cache_of = c, producer = AtSnapshot, handler = AtSelect, ctx_done = False,
      written = []\<rparr>"

subsection \<open>The cache that \<^verbatim>\<open>main\<close> builds\<close>

definition main_cache :: cache where
  "main_cache =
     \<lparr>data = Map.empty,
      peers = [''http://localhost:8081'', ''http://localhost:8082''],
      effects = []\<rparr>"

section \<open>Properties\<close>

subsection \<open>Frame lemmas\<close>

lemma spawn_each_data [simp]: "data (spawn_each f ps c) = data c"
  by (induction ps arbitrary: c) (simp_all add: go_def)

lemma spawn_each_peers [simp]: "peers (spawn_each f ps c) = peers c"
  by (induction ps arbitrary: c) (simp_all add: go_def)

lemma spawn_each_effects [simp]:
  "effects (spawn_each f ps c) = effects c @ map (\<lambda>p. Go (f p)) ps"
  by (induction ps arbitrary: c) (simp_all add: go_def)

lemma Add_data [simp]: "data (Add server key val c) = (data c)(key \<mapsto> val)"
  by (simp add: Add_def replicateData_def data_Store_def)

lemma Add_peers [simp]: "peers (Add server key val c) = peers c"
  by (simp add: Add_def replicateData_def data_Store_def)

lemma Add_effects:
  "effects (Add server key val c) =
     effects c @ Stored key val # map (\<lambda>p. Go (PostReplicate p key val)) (peers c)"
  by (simp add: Add_def replicateData_def data_Store_def)

lemma Delete_data [simp]: "data (Delete server key c) = (data c)(key := None)"
  by (simp add: Delete_def replicateDelete_def data_Delete_def)

lemma Delete_peers [simp]: "peers (Delete server key c) = peers c"
  by (simp add: Delete_def replicateDelete_def data_Delete_def)

lemma Delete_effects:
  "effects (Delete server key c) =
     effects c @ Removed key # map (\<lambda>p. Go (DeleteReplicate p key)) (peers c)"
  by (simp add: Delete_def replicateDelete_def data_Delete_def)

subsection \<open>The order of the two steps\<close>

text \<open>
  C4. \<^verbatim>\<open>Add\<close> performs exactly two steps, in this order. First the pair is written
  to the store: the store after \<^verbatim>\<open>Add\<close> is the old one with the key bound to the value.
  Then, from the cache that already holds the pair, one goroutine per configured peer
  is started for the upsert of this key and value; starting them does not touch the
  store. \<^verbatim>\<open>Delete\<close> likewise removes the key from the store first and starts the delete
  goroutines from the cache without the key. Nothing else is done: the peers stay and
  the effects grow by the write and the \<^verbatim>\<open>go\<close> statements, in this order.
\<close>

theorem Add_Delete_store_then_broadcast:
  "data (Add server key val c) = (data c)(key \<mapsto> val)
   \<and> peers (Add server key val c) = peers c
   \<and> effects (Add server key val c) =
       effects c @ [Stored key val] @ map (\<lambda>p. Go (PostReplicate p key val)) (peers c)
   \<and> (\<exists>written. data written = (data c)(key \<mapsto> val)
         \<and> effects written = effects c @ [Stored key val]
         \<and> Add server key val c = replicateData server key val written
         \<and> data (replicateData server key val written) = data written)
   \<and> data (Delete server key c) = (data c)(key := None)
   \<and> peers (Delete server key c) = peers c
   \<and> effects (Delete server key c) =
       effects c @ [Removed key] @ map (\<lambda>p. Go (DeleteReplicate p key)) (peers c)
   \<and> (\<exists>removed. data removed = (data c)(key := None)
         \<and> effects removed = effects c @ [Removed key]
         \<and> Delete server key c = replicateDelete server key removed
         \<and> data (replicateDelete server key removed) = data removed)"
proof -
  have a: "\<exists>written. data written = (data c)(key \<mapsto> val)
         \<and> effects written = effects c @ [Stored key val]
         \<and> Add server key val c = replicateData server key val written
         \<and> data (replicateData server key val written) = data written"
    by (rule exI [of _ "data_Store key val c"])
      (simp add: data_Store_def Add_def replicateData_def)
  have d: "\<exists>removed. data removed = (data c)(key := None)
         \<and> effects removed = effects c @ [Removed key]
         \<and> Delete server key c = replicateDelete server key removed
         \<and> data (replicateDelete server key removed) = data removed"
    by (rule exI [of _ "data_Delete key c"])
      (simp add: data_Delete_def Delete_def replicateDelete_def)
  show ?thesis
    using a d by (simp add: Add_effects Delete_effects)
qed

subsection \<open>Overwriting\<close>

text \<open>
  C5. From any cache, \<^verbatim>\<open>Add(k, v1)\<close> then \<^verbatim>\<open>Add(k, v2)\<close> then \<^verbatim>\<open>Get(k)\<close> returns
  \<open>(v2, true)\<close>, and the store then holds exactly one entry whose key is \<open>k\<close>, the pair
  \<open>(k, v2)\<close>.
\<close>

theorem Add_Add_Get_overwrites:
  "fst (Get s3 k (Add s2 k v2 (Add s1 k v1 c))) = (v2, True)
   \<and> {e \<in> Map.graph (data (Add s2 k v2 (Add s1 k v1 c))). fst e = k} = {(k, v2)}"
  by (auto simp: Get_def Map.graph_def)

subsection \<open>Deleting twice\<close>

text \<open>
  C6. \<^verbatim>\<open>Delete\<close> is a total function without an error result, so it succeeds on every
  cache. After \<^verbatim>\<open>Delete(k)\<close> the key is absent; a second \<^verbatim>\<open>Delete(k)\<close> leaves the store
  as the first one left it; and on a store where \<open>k\<close> is absent \<^verbatim>\<open>Delete(k)\<close> does not
  change the store.
\<close>

theorem Delete_idempotent:
  "data (Delete s1 k c) k = None
   \<and> data (Delete s2 k (Delete s1 k c)) = data (Delete s1 k c)
   \<and> (data c k = None \<longrightarrow> data (Delete s1 k c) = data c)"
  by (auto simp: fun_upd_idem)

theorem Delete_idempotent_witness:
  "data \<lparr>data = Map.empty, peers = [''http://localhost:8081''], effects = []\<rparr> ''a'' = None
   \<and> data (Delete ''s'' ''a''
        \<lparr>data = Map.empty, peers = [''http://localhost:8081''], effects = []\<rparr>) = Map.empty"
  using Delete_idempotent [of "''s''" "''a''"
      "\<lparr>data = Map.empty, peers = [''http://localhost:8081''], effects = []\<rparr>" "''s''"]
  by simp

subsection \<open>Reading\<close>

text \<open>
  C7. \<^verbatim>\<open>Get\<close> returns the cache as it received it, store and effects alike, so it
  writes nothing and starts no goroutine; its result is \<open>(value, true)\<close> when the store
  has the key and \<open>("", false)\<close> when it has not.
\<close>

theorem Get_pure_lookup:
  "snd (Get server key c) = c
   \<and> (\<forall>val. data c key = Some val \<longrightarrow> fst (Get server key c) = (val, True))
   \<and> (data c key = None \<longrightarrow> fst (Get server key c) = ([], False))"
  by (simp add: Get_def split: option.splits)

theorem Get_pure_lookup_witness:
  "fst (Get ''s'' ''a'' \<lparr>data = [''a'' \<mapsto> ''1''], peers = [], effects = []\<rparr>) = (''1'', True)
   \<and> fst (Get ''s'' ''b'' \<lparr>data = [''a'' \<mapsto> ''1''], peers = [], effects = []\<rparr>) = ([], False)
   \<and> snd (Get ''s'' ''a'' \<lparr>data = [''a'' \<mapsto> ''1''], peers = [], effects = []\<rparr>)
       = \<lparr>data = [''a'' \<mapsto> ''1''], peers = [], effects = []\<rparr>"
  using Get_pure_lookup [of "''s''" "''a''" "\<lparr>data = [''a'' \<mapsto> ''1''], peers = [], effects = []\<rparr>"]
    Get_pure_lookup [of "''s''" "''b''" "\<lparr>data = [''a'' \<mapsto> ''1''], peers = [], effects = []\<rparr>"]
  by simp

subsection \<open>The server argument\<close>

text \<open>
  C9. The first argument of \<^verbatim>\<open>Add\<close>, \<^verbatim>\<open>Get\<close> and \<^verbatim>\<open>Delete\<close> is never read: two calls
  that differ only in it return the same result and the same cache, that is the same
  store and the same goroutines started for the peers.
\<close>

theorem server_argument_ignored:
  "Add s1 key val c = Add s2 key val c
   \<and> Get s1 key c = Get s2 key c
   \<and> Delete s1 key c = Delete s2 key c"
  by (simp add: Add_def Get_def Delete_def replicateData_def replicateDelete_def)

subsection \<open>Local success and independent deliveries\<close>

lemma started_append [simp]: "started (es @ fs) = started es @ started fs"
  by (induction es rule: started.induct) simp_all

lemma started_map_Go [simp]: "started (map (\<lambda>p. Go (f p)) ps) = map f ps"
  by (induction ps) simp_all

lemma outcomes_Add:
  "outcomes net (Add server key val c) =
     outcomes net c @ map (\<lambda>p. run_task net (PostReplicate p key val)) (peers c)"
  by (simp add: outcomes_def Add_effects comp_def)

text \<open>
  C3. \<^verbatim>\<open>Add\<close> does not take the network: it writes the pair to the store and returns
  after the \<^verbatim>\<open>go\<close> statements, so the store and the following \<^verbatim>\<open>Get\<close>, which returns
  \<open>(v, true)\<close>, are the same on every network. It starts one goroutine per configured
  peer, each for that peer's request. How the goroutine for a peer ends depends only on
  what the network does with the request to that peer: two networks that treat this one
  request alike give the same outcome for it, however they treat the other peers.
\<close>

theorem Add_local_then_independent_deliveries:
  "data (Add server k v c) = (data c)(k \<mapsto> v)
   \<and> fst (Get s k (Add server k v c)) = (v, True)
   \<and> started (effects (Add server k v c)) =
       started (effects c) @ map (\<lambda>p. PostReplicate p k v) (peers c)
   \<and> outcomes net (Add server k v c) =
       outcomes net c @ map (\<lambda>p. run_task net (PostReplicate p k v)) (peers c)
   \<and> (url_ok net (url (post_request p k v)) = url_ok net' (url (post_request p k v))
        \<and> round_trip net (post_request p k v) = round_trip net' (post_request p k v)
      \<longrightarrow> run_task net (PostReplicate p k v) = run_task net' (PostReplicate p k v))"
  by (simp add: Get_def outcomes_Add Add_effects)

text \<open>
  On the cache of \<^verbatim>\<open>main\<close>, with the first peer unreachable and the second one
  answering: the local read succeeds, the first delivery fails, the second ends as it
  does when every peer answers.
\<close>

theorem Add_local_then_independent_deliveries_witness:
  "fst (Get ''http://localhost:8080'' ''k'' (Add ''http://localhost:8080'' ''k'' ''v'' main_cache))
     = (''v'', True)
   \<and> outcomes
        \<lparr>url_ok = (\<lambda>u. True),
         round_trip = (\<lambda>r. if peer r = ''http://localhost:8081'' then Fails else Responds)\<rparr>
        (Add ''http://localhost:8080'' ''k'' ''v'' main_cache)
     = [Some (ErrorReplicatingData ''http://localhost:8081''),
        Some (ReplicatedData ''http://localhost:8082'')]
   \<and> run_task
        \<lparr>url_ok = (\<lambda>u. True),
         round_trip = (\<lambda>r. if peer r = ''http://localhost:8081'' then Fails else Responds)\<rparr>
        (PostReplicate ''http://localhost:8082'' ''k'' ''v'')
     = run_task \<lparr>url_ok = (\<lambda>u. True), round_trip = (\<lambda>r. Responds)\<rparr>
        (PostReplicate ''http://localhost:8082'' ''k'' ''v'')"
  using Add_local_then_independent_deliveries
    [of "''http://localhost:8080''" "''k''" "''v''" main_cache "''http://localhost:8080''"
      "\<lparr>url_ok = (\<lambda>u. True),
        round_trip = (\<lambda>r. if peer r = ''http://localhost:8081'' then Fails else Responds)\<rparr>"
      "''http://localhost:8082''"
      "\<lparr>url_ok = (\<lambda>u. True), round_trip = (\<lambda>r. Responds)\<rparr>"]
  by (simp add: main_cache_def outcomes_def post_request_def)

subsection \<open>What a peer does with a replicated upsert\<close>

lemma add_each_peers [simp]: "peers (add_each host ms c) = peers c"
  by (induction host ms c rule: add_each.induct) simp_all

lemma add_each_started:
  "started (effects (add_each host ms c)) =
     started (effects c)
     @ concat (map (\<lambda>(k, v). map (\<lambda>p. PostReplicate p k v) (peers c)) ms)"
  by (induction host ms c rule: add_each.induct) (simp_all add: Add_effects)

text \<open>
  Whenever the body decodes, the handler of \<^verbatim>\<open>/replicate\<close> starts, for every member
  of the body, one goroutine per configured peer that posts the member again.
\<close>

lemma replicate_handler_starts_goroutines:
  assumes "json_decode b = Decoded ms"
  shows "\<exists>c'. replicate_handler host b c = Some ((200, NoBody), c')
           \<and> started (effects c') =
               started (effects c)
               @ concat (map (\<lambda>(k, v). map (\<lambda>p. PostReplicate p k v) (peers c)) ms)"
  using assms by (simp add: replicate_handler_def add_each_started)

text \<open>
  C1 says that a mutation which arrives on \<^verbatim>\<open>/replicate\<close> is stored and not broadcast
  again. The handler applies it with \<^verbatim>\<open>cache.Add\<close>, the method the local \<^verbatim>\<open>/add\<close> uses.
  On the cache of \<^verbatim>\<open>main\<close>, a request to \<^verbatim>\<open>/replicate\<close> with the body \<^verbatim>\<open>{"k":"v"}\<close> is
  answered with 200, the pair is stored, and two goroutines are started that post the
  pair to both configured peers.
\<close>

theorem replicate_handler_broadcasts_again:
  \<open>serve order
     \<lparr>meth = ''POST'', peer = ''http://localhost:8080'', target = ''/replicate'',
      content_type = ''application/json'', body = ''{"k":"v"}''\<rparr>
     main_cache
   = Replied 200 NoBody
      \<lparr>data = [''k'' \<mapsto> ''v''],
       peers = [''http://localhost:8081'', ''http://localhost:8082''],
       effects = [Stored ''k'' ''v'',
                  Go (PostReplicate ''http://localhost:8081'' ''k'' ''v''),
                  Go (PostReplicate ''http://localhost:8082'' ''k'' ''v'')]\<rparr>\<close>
  by (simp add: json_decode_def isSpace_def serve_def request_path_def covered_def plain_def
      cleanPath_def path_Clean_def mux_handler_def routes_def replicate_handler_def
      replied_def main_cache_def Add_def replicateData_def data_Store_def go_def)

subsection \<open>The body of a replicated upsert\<close>

text \<open>
  The body that \<^verbatim>\<open>replicateData\<close> posts is the key, an equals sign and the value. When
  the key does not begin with white space, with a brace or with the letter n, no JSON
  value begins there and the decoder fails on the first byte.
\<close>

lemma replicated_body_malformed:
  assumes "key \<noteq> []" and "\<not> isSpace (hd key)"
    and "hd key \<noteq> CHR ''{''" and "hd key \<noteq> CHR ''n''"
  shows "json_decode (body (post_request peerAddr key val)) = Malformed"
  using assms by (cases key) (simp_all add: json_decode_def post_request_def)

lemma replicated_body_empty_key_malformed:
  "json_decode (body (post_request peerAddr [] val)) = Malformed"
  by (simp add: json_decode_def post_request_def isSpace_def)

text \<open>
  C2 says that the body sent for an upsert is one that \<^verbatim>\<open>/replicate\<close> decodes. For the
  key and value of the repository's own test, \<^verbatim>\<open>testKey\<close> and \<^verbatim>\<open>testValue\<close>, the goroutine
  posts \<^verbatim>\<open>testKey=testValue\<close> with the content type \<^verbatim>\<open>application/json\<close>; the decoder
  rejects it, and the peer answers 400 and leaves its cache as it was.
\<close>

theorem replicated_upsert_rejected:
  "body (task_request (PostReplicate p ''testKey'' ''testValue'')) = ''testKey=testValue''
   \<and> content_type (task_request (PostReplicate p ''testKey'' ''testValue''))
       = ''application/json''
   \<and> json_decode (body (task_request (PostReplicate p ''testKey'' ''testValue''))) = Malformed
   \<and> serve order (task_request (PostReplicate p ''testKey'' ''testValue'')) c
       = Replied 400 (ErrorText ''invalid request body'') c"
  by (simp add: post_request_def json_decode_def isSpace_def serve_def request_path_def
      covered_def plain_def cleanPath_def path_Clean_def mux_handler_def routes_def
      replicate_handler_def replied_def)

subsection \<open>What a peer does with a replicated delete\<close>






subsection \<open>The update feed after the subscriber has gone\<close>

lemma sse_step_producer_stays:
  assumes "sse_step host order a s = Some s'" and "producer s \<noteq> ProducerReturned"
  shows "producer s' \<noteq> ProducerReturned"
  using assms by (cases a) (auto split: if_splits producer_pc.splits)

text \<open>However the feed runs, the producer goroutine never returns.\<close>

lemma sse_run_producer_stays:
  assumes "sse_run host order as s = Some s'" and "producer s \<noteq> ProducerReturned"
  shows "producer s' \<noteq> ProducerReturned"
  using assms
  by (induction as arbitrary: s) (auto split: option.splits dest: sse_step_producer_stays)

text \<open>Once the handler has returned, a producer that waits to send waits for ever.\<close>

lemma sse_step_blocked:
  assumes "handler s = HandlerReturned" and "ctx_done s" and "producer s = AtSend update"
  shows "sse_step host order a s = None"
  using assms by (cases a) simp_all

text \<open>
  C8 says that after the subscriber's context is cancelled every task that produces
  frames for it stops and releases its resources. The run below is a subscriber that
  receives one frame and disconnects: the handler returns, the producer wakes from its
  sleep, takes the next content and reaches the send. In the state reached it has not
  returned and no step is enabled: nothing receives from the channel any more, so the
  goroutine stays blocked in the send.
\<close>

theorem feed_producer_left_blocked:
  "sse_run host order [Snapshot, Rendezvous, Cancel, Return, Wake, Snapshot] (subscribe c)
     = Some \<lparr>cache_of = c, producer = AtSend (getDataFromCache host order c),
             handler = HandlerReturned, ctx_done = True,
             written = [''data: '' @ getDataFromCache host order c @ [CHR 0x0A, CHR 0x0A]]\<rparr>
   \<and> (\<forall>a. sse_step host order a
             \<lparr>cache_of = c, producer = AtSend (getDataFromCache host order c),
              handler = HandlerReturned, ctx_done = True,
              written = [''data: '' @ getDataFromCache host order c @ [CHR 0x0A, CHR 0x0A]]\<rparr>
           = None)"
  by (simp add: subscribe_def sse_step_blocked)

end
